theory Spec2Isabelle
  imports Complex_Main
begin

section \<open>Values of the catalog document\<close>

text \<open>
  \<^verbatim>\<open>json.load\<close> turns the catalog file into Python values: \<^verbatim>\<open>None\<close>, booleans,
  integers, floats, strings, lists and dictionaries with string keys. A dictionary keeps
  its insertion order, and the program iterates over it (\<^verbatim>\<open>.values()\<close>,
  \<^verbatim>\<open>.items()\<close>), so it is an association list; the keys of a Python dictionary are
  distinct. \<open>JNull\<close> is Python's \<^verbatim>\<open>None\<close>, which is also what \<^verbatim>\<open>load_catalog\<close>
  returns when loading fails.
\<close>

datatype pyfloat = Finite rat | PosInfinity | NegInfinity | NaN

datatype json =
    JNull
  | JBool bool
  | JInt int
  | JFloat pyfloat
  | JStr string
  | JList "json list"
  | JDict "(string \<times> json) list"

datatype py_error = KeyError | TypeError | AttributeError

text \<open>Python's truth value of an object, as \<^verbatim>\<open>if not catalog_data\<close> tests it.\<close>

fun truthy :: "json \<Rightarrow> bool" where
  "truthy JNull = False"
| "truthy (JBool b) = b"
| "truthy (JInt i) = (i \<noteq> 0)"
| "truthy (JFloat f) = (f \<noteq> Finite 0)"
| "truthy (JStr s) = (s \<noteq> [])"
| "truthy (JList xs) = (xs \<noteq> [])"
| "truthy (JDict d) = (d \<noteq> [])"

text \<open>\<^verbatim>\<open>obj[key]\<close> with a string key: only a dictionary can be indexed by a string.\<close>

fun subscript :: "json \<Rightarrow> string \<Rightarrow> py_error + json" where
  "subscript (JDict d) k = (case map_of d k of None \<Rightarrow> Inl KeyError | Some v \<Rightarrow> Inr v)"
| "subscript _ k = Inl TypeError"

text \<open>\<^verbatim>\<open>obj.values()\<close>, \<^verbatim>\<open>obj.items()\<close> and \<^verbatim>\<open>obj.get(key, default)\<close> exist on dictionaries only.\<close>

fun dict_values :: "json \<Rightarrow> py_error + json list" where
  "dict_values (JDict d) = Inr (map snd d)"
| "dict_values _ = Inl AttributeError"

fun dict_items :: "json \<Rightarrow> py_error + (string \<times> json) list" where
  "dict_items (JDict d) = Inr d"
| "dict_items _ = Inl AttributeError"

fun dict_get :: "json \<Rightarrow> string \<Rightarrow> json \<Rightarrow> py_error + json" where
  "dict_get (JDict d) k dflt = (case map_of d k of None \<Rightarrow> Inr dflt | Some v \<Rightarrow> Inr v)"
| "dict_get _ k dflt = Inl AttributeError"

text \<open>
  A Python string is represented by the bytes of its UTF-8 encoding (a lone surrogate
  encoded like any other code point), so every Python string has one representation and
  different strings have different ones. Equality, emptiness and concatenation, which
  the program uses, are then those of the byte lists.

  \<^verbatim>\<open>str.lower()\<close> belongs to Python's library and follows the Unicode case tables.
  It is not defined here: the functions that call it take it as their first argument
  \<open>str_lower\<close>, the function that Python's \<^verbatim>\<open>str.lower\<close> is on these
  representations. \<open>lower\<close> is \<^verbatim>\<open>obj.lower()\<close> on a value of the document: only a
  string has the method.
\<close>

fun lower :: "(string \<Rightarrow> string) \<Rightarrow> json \<Rightarrow> py_error + string" where
  "lower str_lower (JStr s) = Inr (str_lower s)"
| "lower str_lower _ = Inl AttributeError"

section \<open>The catalog index\<close>

text \<open>
  The loop of \<^verbatim>\<open>get_table_info\<close> over \<^verbatim>\<open>catalog_data['nodes'].values()\<close>. The left
  operand \<^verbatim>\<open>node['name'].lower()\<close> is evaluated first and may raise.
\<close>

fun get_table_info_loop ::
    "(string \<Rightarrow> string) \<Rightarrow> json list \<Rightarrow> string \<Rightarrow> py_error + json" where
  "get_table_info_loop str_lower [] table_name = Inr JNull"
| "get_table_info_loop str_lower (node # rest) table_name =
     (case subscript node ''name'' of
        Inl e \<Rightarrow> Inl e
      | Inr nm \<Rightarrow>
          (case lower str_lower nm of
             Inl e \<Rightarrow> Inl e
           | Inr l \<Rightarrow>
               if l = str_lower table_name then Inr node
               else get_table_info_loop str_lower rest table_name))"

definition get_table_info ::
    "(string \<Rightarrow> string) \<Rightarrow> json \<Rightarrow> string \<Rightarrow> py_error + json" where
  "get_table_info str_lower catalog_data table_name =
     (if \<not> truthy catalog_data then Inr JNull
      else
        (case subscript catalog_data ''nodes'' of
           Inl e \<Rightarrow> Inl e
         | Inr nodes \<Rightarrow>
             (case dict_values nodes of
                Inl e \<Rightarrow> Inl e
              | Inr vs \<Rightarrow> get_table_info_loop str_lower vs table_name)))"

definition table_kinds :: "json list" where
  "table_kinds = [JStr ''model'', JStr ''seed'', JStr ''snapshot'', JStr ''table'', JStr ''view'']"

text \<open>The loop of \<^verbatim>\<open>get_table_names\<close>; \<open>table_names\<close> is the list built so far.\<close>

fun get_table_names_loop :: "json list \<Rightarrow> json list \<Rightarrow> py_error + json list" where
  "get_table_names_loop [] table_names = Inr table_names"
| "get_table_names_loop (node # rest) table_names =
     (case subscript node ''resource_type'' of
        Inl e \<Rightarrow> Inl e
      | Inr rt \<Rightarrow>
          if rt \<in> set table_kinds then
            (case subscript node ''name'' of
               Inl e \<Rightarrow> Inl e
             | Inr nm \<Rightarrow> get_table_names_loop rest (table_names @ [nm]))
          else get_table_names_loop rest table_names)"

definition get_table_names :: "json \<Rightarrow> py_error + json list" where
  "get_table_names catalog_data =
     (if \<not> truthy catalog_data then Inr []
      else
        (case subscript catalog_data ''nodes'' of
           Inl e \<Rightarrow> Inl e
         | Inr nodes \<Rightarrow>
             (case dict_values nodes of
                Inl e \<Rightarrow> Inl e
              | Inr vs \<Rightarrow> get_table_names_loop vs [])))"

section \<open>The sample query generator\<close>

text \<open>
  The module-level flag \<^verbatim>\<open>DUCKDB_AVAILABLE\<close> is set once at import and read by the
  functions below; it is their first argument here. The f-string interpolates
  \<^verbatim>\<open>table_name\<close>, a string, between the two single quotes.
\<close>

definition generate_duckdb_query :: "bool \<Rightarrow> string \<Rightarrow> string \<Rightarrow> string option" where
  "generate_duckdb_query DUCKDB_AVAILABLE table_name catalog_path =
     (if \<not> DUCKDB_AVAILABLE then None
      else Some (''SELECT * FROM read_parquet('' @ [CHR 0x27] @ table_name
                 @ ''/*.parquet'' @ [CHR 0x27] @ '') LIMIT 5''))"

section \<open>The sampling engine adapter\<close>

text \<open>
  The embedded engine is an external collaborator. What the adapter needs of it:
  whether \<^verbatim>\<open>duckdb.connect(':memory:')\<close> raises (and with which message), and for
  each query text whether \<^verbatim>\<open>conn.execute(q).fetchdf()\<close> raises or yields a data
  frame. A data frame is known by the two texts the program asks of it,
  \<^verbatim>\<open>result.head().to_string()\<close> and \<^verbatim>\<open>result.to_string()\<close>.
\<close>

record frame =
  head_to_string :: string
  to_string :: string

record engine =
  connect_error :: "string option"
  execute_fetchdf :: "string \<Rightarrow> string + frame"

text \<open>
  What a call does to its session, in order: \<open>Connect\<close> when a connection has been
  opened, \<open>Execute q\<close> when \<open>q\<close> has been sent to it, \<open>Close\<close> when
  \<^verbatim>\<open>conn.close()\<close> has been called. Each sampling function returns its text together
  with these events.
\<close>

datatype event = Connect | Execute string | Close

definition not_available :: string where
  "not_available = ''DuckDB is not available. Please install it to use this feature.''"

definition get_sample_data_duckdb ::
    "bool \<Rightarrow> engine \<Rightarrow> string \<Rightarrow> string \<Rightarrow> string \<times> event list" where
  "get_sample_data_duckdb DUCKDB_AVAILABLE duckdb table_name catalog_path =
     (if \<not> DUCKDB_AVAILABLE then (not_available, [])
      else
        (case generate_duckdb_query DUCKDB_AVAILABLE table_name catalog_path of
           None \<Rightarrow> (''DuckDB query generation failed.'', [])
         | Some query \<Rightarrow>
             (case connect_error duckdb of
                Some e \<Rightarrow> (''Error retrieving sample data with DuckDB: '' @ e, [])
              | None \<Rightarrow>
                  (case execute_fetchdf duckdb query of
                     Inl e \<Rightarrow>
                       (''Error retrieving sample data with DuckDB: '' @ e,
                        [Connect, Execute query])
                   | Inr result \<Rightarrow>
                       (head_to_string result, [Connect, Execute query, Close])))))"

definition get_table_schema_duckdb ::
    "bool \<Rightarrow> engine \<Rightarrow> string \<Rightarrow> string \<Rightarrow> string \<times> event list" where
  "get_table_schema_duckdb DUCKDB_AVAILABLE duckdb table_name catalog_path =
     (if \<not> DUCKDB_AVAILABLE then (not_available, [])
      else
        (case generate_duckdb_query DUCKDB_AVAILABLE table_name catalog_path of
           None \<Rightarrow> (''DuckDB query generation failed.'', [])
         | Some query \<Rightarrow>
             (case connect_error duckdb of
                Some e \<Rightarrow> (''Error retrieving table schema with DuckDB: '' @ e, [])
              | None \<Rightarrow>
                  (case execute_fetchdf duckdb (''DESCRIBE '' @ query) of
                     Inl e \<Rightarrow>
                       (''Error retrieving table schema with DuckDB: '' @ e,
                        [Connect, Execute (''DESCRIBE '' @ query)])
                   | Inr result \<Rightarrow>
                       (to_string result,
                        [Connect, Execute (''DESCRIBE '' @ query), Close])))))"

section \<open>The catalog loader\<close>

text \<open>
  Standard output is a list of lines, one for each \<^verbatim>\<open>print\<close> call. A line is the
  list of its pieces: literal text, or \<open>Str v\<close> for \<^verbatim>\<open>str(v)\<close> of a value of the
  document, whose rendering is left to Python.
\<close>

datatype piece = Txt string | Str json

type_synonym line = "piece list"

text \<open>
  What \<^verbatim>\<open>open(catalog_path)\<close> followed by \<^verbatim>\<open>json.load\<close> does, one case for each
  handler of \<^verbatim>\<open>load_catalog\<close>: the parsed document, \<^verbatim>\<open>FileNotFoundError\<close>,
  \<^verbatim>\<open>json.JSONDecodeError\<close>, or any other \<^verbatim>\<open>Exception\<close> with its message.
\<close>

datatype read_outcome =
    Loaded json
  | FileNotFoundError
  | JSONDecodeError
  | OtherException string

definition load_catalog :: "(string \<Rightarrow> read_outcome) \<Rightarrow> string \<Rightarrow> line list \<times> json" where
  "load_catalog read_json catalog_path =
     (case read_json catalog_path of
        Loaded catalog_data \<Rightarrow> ([], catalog_data)
      | FileNotFoundError \<Rightarrow>
          ([[Txt (''Error: catalog.json file not found at '' @ catalog_path)]], JNull)
      | JSONDecodeError \<Rightarrow>
          ([[Txt (''Error: Invalid JSON in catalog.json at '' @ catalog_path)]], JNull)
      | OtherException e \<Rightarrow>
          ([[Txt (''Error loading catalog.json: '' @ e)]], JNull))"

section \<open>The entry point\<close>

text \<open>
  The parsed command line, and the environment the process runs in: whether the engine
  was imported, the file system, the engine, and Python's \<^verbatim>\<open>str.lower\<close>.
\<close>

record args =
  arg_question :: "string list"
  arg_catalog :: string
  arg_llm :: string
  arg_api_key :: "string option"
  arg_data_path :: string

record env =
  duckdb_available :: bool
  read_json :: "string \<Rightarrow> read_outcome"
  duckdb :: engine
  unicode_lower :: "string \<Rightarrow> string"

text \<open>
  How the process ends: \<open>Exit n\<close> is exit code \<open>n\<close> (\<^verbatim>\<open>sys.exit(1)\<close>, or 0 when
  \<^verbatim>\<open>main\<close> returns), \<open>Uncaught e\<close> an exception that nothing catches.
\<close>

datatype status = Exit nat | Uncaught py_error

fun join :: "string \<Rightarrow> string list \<Rightarrow> string" where
  "join sep [] = []"
| "join sep [x] = x"
| "join sep (x # y # ys) = x @ sep @ join sep (y # ys)"

text \<open>\<^verbatim>\<open>not api_key\<close>: the option was not given, or was given the empty string.\<close>

definition key_given :: "string option \<Rightarrow> bool" where
  "key_given api_key = (case api_key of None \<Rightarrow> False | Some k \<Rightarrow> k \<noteq> [])"

text \<open>
  Step 2 of \<^verbatim>\<open>main\<close>, the \<^verbatim>\<open>if llm_choice == ...\<close> chain that stands for the
  language model: the lines it prints, and either the exit code of \<^verbatim>\<open>sys.exit\<close> or
  the pair \<^verbatim>\<open>(llm_response, related_tables)\<close>.
\<close>

definition find_related_tables ::
    "string \<Rightarrow> json list \<Rightarrow> string \<Rightarrow> string option
       \<Rightarrow> line list \<times> (nat + string \<times> string list)" where
  "find_related_tables question table_names llm_choice api_key =
     (if llm_choice = ''openai'' then
        (if \<not> key_given api_key then
           ([[Txt ''Error: --api-key is required when using OpenAI.'']], Inl 1)
         else
           ([[Txt ''Calling OpenAI with question:'', Txt '' '', Txt question],
             [Txt ''Tables in catalog:'', Txt '' '', Str (JList table_names)]],
            Inr (''I think the relevant tables are customers, orders, and products.'',
                 [''customers'', ''orders'', ''products''])))
      else if llm_choice = ''ollama'' then
        ([[Txt ''Calling Ollama with question:'', Txt '' '', Txt question],
          [Txt ''Tables in catalog:'', Txt '' '', Str (JList table_names)]],
         Inr (''Ollama says the relevant tables are:  customers, orders, and products.'',
              [''customers'', ''orders'', ''products'']))
      else if llm_choice = ''debug'' then
        ([[Txt ''Debug mode:  No LLM call.'']],
         Inr (''Debug response:  The relevant tables are: customers, orders, and products.'',
              [''customers'', ''orders'', ''products'']))
      else
        ([[Txt ''Error: Invalid LLM choice.  Should not have gotten here.'']], Inl 1))"

text \<open>
  The loop over \<^verbatim>\<open>table_info['columns'].items()\<close>: one line for each column, until a
  column raises.
\<close>

fun print_columns :: "(string \<times> json) list \<Rightarrow> line list \<times> py_error option" where
  "print_columns [] = ([], None)"
| "print_columns ((column_name, column_info) # rest) =
     (case subscript column_info ''dtype'' of
        Inl e \<Rightarrow> ([], Some e)
      | Inr dtype \<Rightarrow>
          (case dict_get column_info ''description'' (JStr ''No description.'') of
             Inl e \<Rightarrow> ([], Some e)
           | Inr descr \<Rightarrow>
               (case print_columns rest of
                  (out, err) \<Rightarrow>
                    ([Txt (''    '' @ column_name @ '': ''), Str dtype, Txt '' - '', Str descr]
                       # out, err))))"

text \<open>The two sampling blocks of the loop body: a text is printed when it is not empty.\<close>

definition print_sample :: "string \<Rightarrow> string \<Rightarrow> line list" where
  "print_sample title text = (if text \<noteq> [] then [[Txt title], [Txt text]] else [])"

text \<open>The body of the loop over \<^verbatim>\<open>related_tables\<close>, for one table.\<close>

definition report_table :: "env \<Rightarrow> json \<Rightarrow> string \<Rightarrow> string \<Rightarrow> line list \<times> py_error option" where
  "report_table e catalog_data data_path table_name =
     (case get_table_info (unicode_lower e) catalog_data table_name of
        Inl err \<Rightarrow> ([], Some err)
      | Inr table_info \<Rightarrow>
          if truthy table_info then
            (let l1 = [Txt ([CHR 0x0A] @ ''Table: '' @ table_name)] in
             case dict_get table_info ''description'' (JStr ''No description available.'') of
               Inl err \<Rightarrow> ([l1], Some err)
             | Inr descr \<Rightarrow>
                 (let l2 = [Txt ''  Description: '', Str descr];
                      l3 = [Txt ''  Columns:'']
                  in
                  case subscript table_info ''columns'' of
                    Inl err \<Rightarrow> ([l1, l2, l3], Some err)
                  | Inr columns \<Rightarrow>
                      (case dict_items columns of
                         Inl err \<Rightarrow> ([l1, l2, l3], Some err)
                       | Inr cols \<Rightarrow>
                           (case print_columns cols of
                              (out, Some err) \<Rightarrow> ([l1, l2, l3] @ out, Some err)
                            | (out, None) \<Rightarrow>
                                (let sample_data =
                                       fst (get_sample_data_duckdb (duckdb_available e)
                                              (duckdb e) table_name data_path);
                                     table_schema =
                                       fst (get_table_schema_duckdb (duckdb_available e)
                                              (duckdb e) table_name data_path)
                                 in
                                 ([l1, l2, l3] @ out
                                    @ print_sample ([CHR 0x0A] @ ''  Sample Data (DuckDB):'')
                                        sample_data
                                    @ print_sample ([CHR 0x0A] @ ''  Table Schema (DuckDB):'')
                                        table_schema,
                                  None))))))
          else
            ([[Txt (''Table '' @ [CHR 0x27] @ table_name @ [CHR 0x27]
                      @ '' not found in catalog.'')]], None))"

fun report_tables ::
    "env \<Rightarrow> json \<Rightarrow> string \<Rightarrow> string list \<Rightarrow> line list \<times> py_error option" where
  "report_tables e catalog_data data_path [] = ([], None)"
| "report_tables e catalog_data data_path (table_name # rest) =
     (case report_table e catalog_data data_path table_name of
        (out, Some err) \<Rightarrow> (out, Some err)
      | (out, None) \<Rightarrow>
          (case report_tables e catalog_data data_path rest of
             (out', err) \<Rightarrow> (out @ out', err)))"

text \<open>Step 3 of \<^verbatim>\<open>main\<close>: the lines of the query advice, which depend on the backend only.\<close>

definition query_advice :: "string \<Rightarrow> line list" where
  "query_advice llm_choice =
     (if llm_choice = ''openai'' then
        [[Txt ''Calling OpenAI for query advice...''],
         [Txt ''Here's a possible query using the tables:  SELECT c.name, o.order_date FROM customers c JOIN orders o ON c.customer_id = o.customer_id'']]
      else if llm_choice = ''ollama'' then
        [[Txt ''Calling Ollama for query advice...''],
         [Txt ''Ollama suggests this query: SELECT c.name, o.order_date FROM customers c JOIN orders o ON c.customer_id = o.customer_id'']]
      else if llm_choice = ''debug'' then
        [[Txt ''Debug:  Try this query: SELECT c.name, o.order_date FROM customers c JOIN orders o ON c.customer_id = o.customer_id'']]
      else
        [[Txt ''Should not have gotten here.'']])"

text \<open>
  \<^verbatim>\<open>main\<close>, after \<^verbatim>\<open>parse_args\<close>: everything printed, and how the process ends.
  An exception keeps what was printed before it.
\<close>

definition main :: "env \<Rightarrow> args \<Rightarrow> line list \<times> status" where
  "main e a =
     (let question = join '' '' (arg_question a);
          catalog_path = arg_catalog a;
          llm_choice = arg_llm a;
          api_key = arg_api_key a;
          data_path = arg_data_path a
      in
      case load_catalog (read_json e) catalog_path of
        (out1, catalog_data) \<Rightarrow>
          if \<not> truthy catalog_data then (out1, Exit 1)
          else
            (case get_table_names catalog_data of
               Inl err \<Rightarrow> (out1, Uncaught err)
             | Inr table_names \<Rightarrow>
                 (case find_related_tables question table_names llm_choice api_key of
                    (out2, Inl code) \<Rightarrow> (out1 @ out2, Exit code)
                  | (out2, Inr (llm_response, related_tables)) \<Rightarrow>
                      (let out3 = [[Txt llm_response]] in
                       case report_tables e catalog_data data_path related_tables of
                         (out4, Some err) \<Rightarrow> (out1 @ out2 @ out3 @ out4, Uncaught err)
                       | (out4, None) \<Rightarrow>
                           (out1 @ out2 @ out3 @ out4 @ query_advice llm_choice
                              @ [[Txt ([CHR 0x0A] @ ''Done.'')]],
                            Exit 0)))))"

section \<open>Notions used to state the properties\<close>

text \<open>
  These are not functions of the program. \<open>has_key obj k\<close> says that \<^verbatim>\<open>obj[k]\<close>
  does not raise and \<open>field obj k\<close> is then its value; \<open>named_node\<close> says that a
  node has a \<^verbatim>\<open>name\<close> that is a string, \<open>node_name\<close> is that string.
\<close>

definition has_key :: "json \<Rightarrow> string \<Rightarrow> bool" where
  "has_key obj k = (case subscript obj k of Inr v \<Rightarrow> True | Inl e \<Rightarrow> False)"

definition field :: "json \<Rightarrow> string \<Rightarrow> json" where
  "field obj k = (case subscript obj k of Inr v \<Rightarrow> v | Inl e \<Rightarrow> JNull)"

definition named_node :: "json \<Rightarrow> bool" where
  "named_node node = (case subscript node ''name'' of Inr (JStr s) \<Rightarrow> True | _ \<Rightarrow> False)"

definition node_name :: "json \<Rightarrow> string" where
  "node_name node = (case subscript node ''name'' of Inr (JStr s) \<Rightarrow> s | _ \<Rightarrow> [])"

fun is_dict :: "json \<Rightarrow> bool" where
  "is_dict (JDict d) = True"
| "is_dict _ = False"




text \<open>The backends that get past their checks: \<^verbatim>\<open>openai\<close> needs a key.\<close>

definition backend_passes :: "string \<Rightarrow> string option \<Rightarrow> bool" where
  "backend_passes llm_choice api_key =
     (llm_choice = ''ollama'' \<or> llm_choice = ''debug'' \<or>
      (llm_choice = ''openai'' \<and> key_given api_key))"

section \<open>Concrete inputs\<close>

text \<open>
  Lowering of ASCII text: the letters A to Z go to a to z, every other byte stays. It
  gives what \<^verbatim>\<open>str.lower\<close> gives on strings of ASCII characters, which is all the
  examples below contain; it stands for \<^verbatim>\<open>str.lower\<close> in them and nowhere else.
\<close>

definition ascii_lower_char :: "char \<Rightarrow> char" where
  "ascii_lower_char c =
     (let n = (of_char c :: nat) in if 65 \<le> n \<and> n \<le> 90 then char_of (n + 32) else c)"

definition ascii_lower :: "string \<Rightarrow> string" where
  "ascii_lower s = map ascii_lower_char s"

text \<open>
  A catalog with two nodes whose names differ in case only, one node of type
  \<^verbatim>\<open>source\<close>, and a view.
\<close>

definition customers_node :: json where
  "customers_node =
     JDict [(''name'', JStr ''Customers''), (''resource_type'', JStr ''model''),
            (''description'', JStr ''One row per customer''),
            (''columns'', JDict [(''id'', JDict [(''dtype'', JStr ''INTEGER'')]),
                                 (''email'', JDict [(''dtype'', JStr ''VARCHAR''),
                                                    (''description'', JStr ''Contact'')])])]"

definition example_nodes :: "(string \<times> json) list" where
  "example_nodes =
     [(''model.shop.customers'', customers_node),
      (''source.shop.raw'',
         JDict [(''name'', JStr ''raw''), (''resource_type'', JStr ''source''),
                (''columns'', JDict [])]),
      (''seed.shop.customers'',
         JDict [(''name'', JStr ''customers''), (''resource_type'', JStr ''seed''),
                (''columns'', JDict [])]),
      (''model.shop.orders'',
         JDict [(''name'', JStr ''orders''), (''resource_type'', JStr ''view''),
                (''columns'', JDict [(''total'', JDict [(''dtype'', JStr ''DOUBLE'')])])])]"

definition example_catalog :: json where
  "example_catalog = JDict [(''metadata'', JDict []), (''nodes'', JDict example_nodes)]"

text \<open>An engine that connects and then finds no file for any query.\<close>

definition no_files_engine :: engine where
  "no_files_engine =
     \<lparr>connect_error = None, execute_fetchdf = (\<lambda>q. Inl ''IO Error: No files found'')\<rparr>"

text \<open>An engine that answers every query.\<close>

definition answering_engine :: engine where
  "answering_engine =
     \<lparr>connect_error = None,
      execute_fetchdf = (\<lambda>q. Inr \<lparr>head_to_string = ''   id'', to_string = ''column_name''\<rparr>)\<rparr>"

text \<open>A file system with a good catalog, an empty one, a broken one and a directory.\<close>

definition example_files :: "string \<Rightarrow> read_outcome" where
  "example_files path =
     (if path = ''catalog.json'' then Loaded example_catalog
      else if path = ''empty.json'' then Loaded (JDict [])
      else if path = ''broken.json'' then JSONDecodeError
      else if path = ''target'' then OtherException ''[Errno 21] Is a directory: target''
      else FileNotFoundError)"

definition example_env :: env where
  "example_env =
     \<lparr>duckdb_available = False, read_json = example_files, duckdb = no_files_engine,
      unicode_lower = ascii_lower\<rparr>"

definition example_args :: "string \<Rightarrow> string \<Rightarrow> string option \<Rightarrow> args" where
  "example_args path llm_choice api_key =
     \<lparr>arg_question = [''who'', ''ordered'', ''most''], arg_catalog = path,
      arg_llm = llm_choice, arg_api_key = api_key, arg_data_path = ''/data''\<rparr>"

text \<open>
  A catalog whose second node has no \<^verbatim>\<open>name\<close>, one whose only node has no
  \<^verbatim>\<open>resource_type\<close>, and a document without \<^verbatim>\<open>nodes\<close>.
\<close>

definition partial_nodes :: "(string \<times> json) list" where
  "partial_nodes =
     [(''model.shop.customers'',
         JDict [(''name'', JStr ''customers''), (''resource_type'', JStr ''model'')]),
      (''source.shop.raw'', JDict [(''resource_type'', JStr ''source'')])]"

definition partial_catalog :: json where
  "partial_catalog = JDict [(''nodes'', JDict partial_nodes)]"

definition untyped_nodes :: "(string \<times> json) list" where
  "untyped_nodes = [(''model.shop.customers'', JDict [(''name'', JStr ''customers'')])]"

definition untyped_catalog :: json where
  "untyped_catalog = JDict [(''nodes'', JDict untyped_nodes)]"

definition nodeless_catalog :: json where
  "nodeless_catalog = JDict [(''metadata'', JDict [])]"

section \<open>Facts about the model\<close>

lemma has_key_subscript: "has_key obj k \<Longrightarrow> subscript obj k = Inr (field obj k)"
  by (simp add: has_key_def field_def split: sum.splits)

lemma named_node_subscript: "named_node node \<Longrightarrow> subscript node ''name'' = Inr (JStr (node_name node))"
  by (simp add: named_node_def node_name_def split: sum.splits json.splits)

lemma named_node_has_key: "named_node node \<Longrightarrow> has_key node ''name''"
  by (simp add: named_node_def has_key_def split: sum.splits)

lemma subscript_truthy: "subscript obj k = Inr v \<Longrightarrow> truthy obj"
  by (cases obj) (auto split: option.splits)


lemma is_dict_subscript: "is_dict obj \<Longrightarrow> subscript obj k = Inl e \<Longrightarrow> e = KeyError"
  by (cases obj) (auto split: option.splits)


lemma get_table_names_loop_filter:
  "\<forall>node \<in> set vs. has_key node ''resource_type'' \<and>
       (field node ''resource_type'' \<in> set table_kinds \<longrightarrow> has_key node ''name'') \<Longrightarrow>
   get_table_names_loop vs acc =
     Inr (acc @ map (\<lambda>node. field node ''name'')
                  (filter (\<lambda>node. field node ''resource_type'' \<in> set table_kinds) vs))"
proof (induction vs arbitrary: acc)
  case Nil
  then show ?case by simp
next
  case (Cons node vs)
  then show ?case by (simp add: has_key_subscript)
qed

lemma get_table_info_loop_find:
  "\<forall>node \<in> set vs. named_node node \<Longrightarrow>
   get_table_info_loop str_lower vs q =
     Inr (case List.find (\<lambda>node. str_lower (node_name node) = str_lower q) vs of
            None \<Rightarrow> JNull | Some node \<Rightarrow> node)"
  by (induction vs) (simp_all add: named_node_subscript)

lemma get_table_info_loop_lower:
  "str_lower q = str_lower q' \<Longrightarrow>
   get_table_info_loop str_lower vs q = get_table_info_loop str_lower vs q'"
  by (induction vs) (simp_all split: sum.splits)

lemma get_table_names_nodes:
  assumes "subscript catalog_data ''nodes'' = Inr (JDict ns)"
  shows "get_table_names catalog_data = get_table_names_loop (map snd ns) []"
  using assms subscript_truthy [OF assms] by (simp add: get_table_names_def)

lemma get_table_info_nodes:
  assumes "subscript catalog_data ''nodes'' = Inr (JDict ns)"
  shows "get_table_info str_lower catalog_data q = get_table_info_loop str_lower (map snd ns) q"
  using assms subscript_truthy [OF assms] by (simp add: get_table_info_def)










section \<open>The sample query generator: claim C1\<close>

text \<open>
  C1. For every table name, \<open>generate_duckdb_query\<close> returns \<open>None\<close> when the engine
  is absent, and otherwise exactly the text
  \<^verbatim>\<open>SELECT * FROM read_parquet('<table_name>/*.parquet') LIMIT 5\<close>. Its second
  argument, to which \<^verbatim>\<open>main\<close> passes the data directory, has no part in the result:
  any two values of it give the same query.
\<close>

theorem generate_duckdb_query_spec:
  "generate_duckdb_query False table_name data_path = None \<and>
   generate_duckdb_query True table_name data_path =
     Some (''SELECT * FROM read_parquet('' @ [CHR 0x27] @ table_name @ ''/*.parquet''
           @ [CHR 0x27] @ '') LIMIT 5'') \<and>
   generate_duckdb_query available table_name data_path =
     generate_duckdb_query available table_name data_path'"
  by (simp add: generate_duckdb_query_def)

section \<open>Listing the queryable tables: claim C2\<close>

text \<open>
  C2. \<open>get_table_names\<close> returns the empty list for a catalog that is \<^verbatim>\<open>None\<close>
  (or any other false value). For a catalog whose \<^verbatim>\<open>nodes\<close> mapping has only
  entries with a \<^verbatim>\<open>resource_type\<close> and a \<^verbatim>\<open>name\<close>, it returns the names of exactly
  the nodes whose type is one of model, seed, snapshot, table and view, in the order of
  the mapping; a node of any other type, such as source, is left out.
\<close>

theorem get_table_names_spec:
  "(\<not> truthy catalog_data \<longrightarrow> get_table_names catalog_data = Inr []) \<and>
   get_table_names JNull = Inr [] \<and>
   (subscript catalog_data ''nodes'' = Inr (JDict ns) \<and>
    (\<forall>node \<in> set (map snd ns). has_key node ''resource_type'' \<and> has_key node ''name'')
    \<longrightarrow> get_table_names catalog_data =
          Inr (map (\<lambda>node. field node ''name'')
                 (filter (\<lambda>node. field node ''resource_type'' \<in> set table_kinds)
                    (map snd ns))))"
proof (intro conjI impI)
  show "get_table_names JNull = Inr []" by (simp add: get_table_names_def)
next
  assume "\<not> truthy catalog_data"
  then show "get_table_names catalog_data = Inr []" by (simp add: get_table_names_def)
next
  assume a: "subscript catalog_data ''nodes'' = Inr (JDict ns) \<and>
    (\<forall>node \<in> set (map snd ns). has_key node ''resource_type'' \<and> has_key node ''name'')"
  then have n: "subscript catalog_data ''nodes'' = Inr (JDict ns)" by simp
  from a have "\<forall>node \<in> set (map snd ns). has_key node ''resource_type'' \<and>
       (field node ''resource_type'' \<in> set table_kinds \<longrightarrow> has_key node ''name'')"
    by simp
  from get_table_names_loop_filter [OF this, of "[]"]
  show "get_table_names catalog_data =
          Inr (map (\<lambda>node. field node ''name'')
                 (filter (\<lambda>node. field node ''resource_type'' \<in> set table_kinds)
                    (map snd ns)))"
    by (simp add: get_table_names_nodes [OF n])
qed

text \<open>
  On the example catalog the second node is a source and does not appear; the empty
  document gives the empty list.
\<close>

theorem get_table_names_spec_witness:
  "subscript example_catalog ''nodes'' = Inr (JDict example_nodes) \<and>
   field (snd (example_nodes ! 1)) ''resource_type'' = JStr ''source'' \<and>
   get_table_names example_catalog =
     Inr [JStr ''Customers'', JStr ''customers'', JStr ''orders''] \<and>
   get_table_names (JDict []) = Inr []"
proof -
  have h: "subscript example_catalog ''nodes'' = Inr (JDict example_nodes) \<and>
    (\<forall>node \<in> set (map snd example_nodes).
        has_key node ''resource_type'' \<and> has_key node ''name'')"
    by (simp add: example_catalog_def example_nodes_def customers_node_def has_key_def)
  have e: "\<not> truthy (JDict [])" by simp
  from get_table_names_spec [of "JDict []"] e
  have "get_table_names (JDict []) = Inr []" by blast
  moreover from get_table_names_spec [of example_catalog example_nodes] h
  have "get_table_names example_catalog =
          Inr (map (\<lambda>node. field node ''name'')
                 (filter (\<lambda>node. field node ''resource_type'' \<in> set table_kinds)
                    (map snd example_nodes)))"
    by blast
  then have "get_table_names example_catalog =
      Inr [JStr ''Customers'', JStr ''customers'', JStr ''orders'']"
    by (simp add: example_nodes_def customers_node_def field_def table_kinds_def)
  moreover have "field (snd (example_nodes ! 1)) ''resource_type'' = JStr ''source''"
    by (simp add: example_nodes_def field_def)
  ultimately show ?thesis using h by blast
qed

section \<open>Finding a table: claim C3\<close>

lemma find_first_match:
  assumes "x \<in> set xs" and "P x"
  shows "\<exists>y \<in> set xs. P y \<and> List.find P xs = Some y"
  using assms by (induction xs) auto

text \<open>
  C3. \<open>get_table_info\<close> returns \<^verbatim>\<open>None\<close>, without raising, for a catalog that is
  \<^verbatim>\<open>None\<close> or empty. On a catalog whose nodes all have a string \<^verbatim>\<open>name\<close> it
  returns the first node, in the order of the mapping, whose name equals the query once
  \<^verbatim>\<open>str.lower\<close> has been applied to both, and \<^verbatim>\<open>None\<close> when there is no such
  node. Two queries with the same lower case always have the same result. In particular,
  as \<^verbatim>\<open>str.lower\<close> sends \<^verbatim>\<open>Customers\<close>, \<^verbatim>\<open>CUSTOMERS\<close> and \<^verbatim>\<open>customers\<close> to
  \<^verbatim>\<open>customers\<close>, in a catalog with a node named \<^verbatim>\<open>Customers\<close> the three lookups
  return one and the same node. All of this holds whatever function \<^verbatim>\<open>str.lower\<close> is.
\<close>

theorem get_table_info_spec:
  "(\<not> truthy catalog_data \<longrightarrow> get_table_info str_lower catalog_data table_name = Inr JNull) \<and>
   get_table_info str_lower JNull table_name = Inr JNull \<and>
   (subscript catalog_data ''nodes'' = Inr (JDict ns) \<and>
    (\<forall>node \<in> set (map snd ns). named_node node)
    \<longrightarrow> get_table_info str_lower catalog_data table_name =
          Inr (case List.find (\<lambda>node. str_lower (node_name node) = str_lower table_name)
                      (map snd ns) of
                 None \<Rightarrow> JNull
               | Some node \<Rightarrow> node)) \<and>
   (subscript catalog_data ''nodes'' = Inr (JDict ns) \<and>
    (\<forall>node \<in> set (map snd ns).
        named_node node \<and> str_lower (node_name node) \<noteq> str_lower table_name)
    \<longrightarrow> get_table_info str_lower catalog_data table_name = Inr JNull) \<and>
   (str_lower table_name = str_lower table_name'
    \<longrightarrow> get_table_info str_lower catalog_data table_name =
        get_table_info str_lower catalog_data table_name') \<and>
   (str_lower ''Customers'' = ''customers'' \<and> str_lower ''CUSTOMERS'' = ''customers'' \<and>
    str_lower ''customers'' = ''customers'' \<and>
    subscript catalog_data ''nodes'' = Inr (JDict ns) \<and>
    (\<forall>node \<in> set (map snd ns). named_node node) \<and>
    (\<exists>node \<in> set (map snd ns). node_name node = ''Customers'')
    \<longrightarrow> (\<exists>node \<in> set (map snd ns).
           str_lower (node_name node) = ''customers'' \<and>
           get_table_info str_lower catalog_data ''customers'' = Inr node \<and>
           get_table_info str_lower catalog_data ''CUSTOMERS'' = Inr node \<and>
           get_table_info str_lower catalog_data ''Customers'' = Inr node))"
proof (intro conjI impI)
  show "get_table_info str_lower JNull table_name = Inr JNull"
    by (simp add: get_table_info_def)
next
  assume "\<not> truthy catalog_data"
  then show "get_table_info str_lower catalog_data table_name = Inr JNull"
    by (simp add: get_table_info_def)
next
  assume a: "subscript catalog_data ''nodes'' = Inr (JDict ns) \<and>
    (\<forall>node \<in> set (map snd ns). named_node node)"
  then have n: "subscript catalog_data ''nodes'' = Inr (JDict ns)"
    and m: "\<forall>node \<in> set (map snd ns). named_node node" by simp_all
  from get_table_info_loop_find [OF m, of str_lower table_name]
  show "get_table_info str_lower catalog_data table_name =
          Inr (case List.find (\<lambda>node. str_lower (node_name node) = str_lower table_name)
                      (map snd ns) of
                 None \<Rightarrow> JNull
               | Some node \<Rightarrow> node)"
    by (simp add: get_table_info_nodes [OF n])
next
  assume a: "subscript catalog_data ''nodes'' = Inr (JDict ns) \<and>
    (\<forall>node \<in> set (map snd ns).
        named_node node \<and> str_lower (node_name node) \<noteq> str_lower table_name)"
  then have n: "subscript catalog_data ''nodes'' = Inr (JDict ns)"
    and m: "\<forall>node \<in> set (map snd ns). named_node node" by simp_all
  from a have "List.find (\<lambda>node. str_lower (node_name node) = str_lower table_name)
                 (map snd ns) = None"
    by (simp add: find_None_iff)
  with get_table_info_loop_find [OF m, of str_lower table_name]
  show "get_table_info str_lower catalog_data table_name = Inr JNull"
    by (simp add: get_table_info_nodes [OF n])
next
  assume l: "str_lower table_name = str_lower table_name'"
  show "get_table_info str_lower catalog_data table_name =
        get_table_info str_lower catalog_data table_name'"
    by (simp add: get_table_info_def
          get_table_info_loop_lower [of str_lower table_name table_name', OF l]
          split: sum.splits)
next
  assume a: "str_lower ''Customers'' = ''customers'' \<and>
    str_lower ''CUSTOMERS'' = ''customers'' \<and>
    str_lower ''customers'' = ''customers'' \<and>
    subscript catalog_data ''nodes'' = Inr (JDict ns) \<and>
    (\<forall>node \<in> set (map snd ns). named_node node) \<and>
    (\<exists>node \<in> set (map snd ns). node_name node = ''Customers'')"
  then have l1: "str_lower ''Customers'' = ''customers''"
    and l2: "str_lower ''CUSTOMERS'' = ''customers''"
    and l3: "str_lower ''customers'' = ''customers''"
    and n: "subscript catalog_data ''nodes'' = Inr (JDict ns)"
    and m: "\<forall>node \<in> set (map snd ns). named_node node" by simp_all
  from a obtain c where c: "c \<in> set (map snd ns)" and cn: "node_name c = ''Customers''"
    by blast
  from cn l1 have "str_lower (node_name c) = ''customers''" by simp
  from find_first_match [of c "map snd ns"
      "\<lambda>node. str_lower (node_name node) = ''customers''", OF c this]
  obtain y where y: "y \<in> set (map snd ns)" and yl: "str_lower (node_name y) = ''customers''"
    and f: "List.find (\<lambda>node. str_lower (node_name node) = ''customers'') (map snd ns)
              = Some y"
    by blast
  have r: "\<And>q. str_lower q = ''customers'' \<Longrightarrow>
             get_table_info str_lower catalog_data q = Inr y"
    using get_table_info_loop_find [OF m, of str_lower] f
    by (simp add: get_table_info_nodes [OF n])
  from y yl r [OF l3] r [OF l2] r [OF l1]
  show "\<exists>node \<in> set (map snd ns).
           str_lower (node_name node) = ''customers'' \<and>
           get_table_info str_lower catalog_data ''customers'' = Inr node \<and>
           get_table_info str_lower catalog_data ''CUSTOMERS'' = Inr node \<and>
           get_table_info str_lower catalog_data ''Customers'' = Inr node"
    by (intro bexI [of _ y] conjI)
qed

text \<open>
  The example catalog holds a node named \<^verbatim>\<open>Customers\<close> before one named
  \<^verbatim>\<open>customers\<close>: the three spellings all find the first of them. Its names are ASCII
  text, which \<^verbatim>\<open>str.lower\<close> lowers as \<open>ascii_lower\<close> does.
\<close>

theorem get_table_info_spec_witness:
  "node_name customers_node = ''Customers'' \<and>
   get_table_info ascii_lower example_catalog ''customers'' = Inr customers_node \<and>
   get_table_info ascii_lower example_catalog ''CUSTOMERS'' = Inr customers_node \<and>
   get_table_info ascii_lower example_catalog ''Customers'' = Inr customers_node \<and>
   get_table_info ascii_lower example_catalog ''products'' = Inr JNull \<and>
   get_table_info ascii_lower (JDict []) ''customers'' = Inr JNull \<and>
   (\<exists>node \<in> set (map snd example_nodes).
       ascii_lower (node_name node) = ''customers'' \<and>
       get_table_info ascii_lower example_catalog ''customers'' = Inr node \<and>
       get_table_info ascii_lower example_catalog ''CUSTOMERS'' = Inr node \<and>
       get_table_info ascii_lower example_catalog ''Customers'' = Inr node)"
proof -
  have n: "subscript example_catalog ''nodes'' = Inr (JDict example_nodes)"
    by (simp add: example_catalog_def)
  have m: "\<forall>node \<in> set (map snd example_nodes). named_node node"
    by (simp add: example_nodes_def customers_node_def named_node_def)
  have low: "ascii_lower ''Customers'' = ''customers''"
    "ascii_lower ''CUSTOMERS'' = ''customers''"
    "ascii_lower ''customers'' = ''customers''" "ascii_lower ''raw'' = ''raw''"
    "ascii_lower ''orders'' = ''orders''" "ascii_lower ''products'' = ''products''"
    by code_simp+
  note spec = get_table_info_spec [where str_lower = ascii_lower
      and catalog_data = example_catalog and ns = example_nodes]
  have f: "\<And>q. get_table_info ascii_lower example_catalog q =
      Inr (case List.find (\<lambda>node. ascii_lower (node_name node) = ascii_lower q)
                      (map snd example_nodes) of
                 None \<Rightarrow> JNull
               | Some node \<Rightarrow> node)"
    by (rule spec [THEN conjunct2, THEN conjunct2, THEN conjunct1, THEN mp])
       (intro conjI n m)
  have 1: "get_table_info ascii_lower example_catalog ''customers'' = Inr customers_node"
    by (simp add: f example_nodes_def node_name_def low)
       (simp add: customers_node_def low)
  have 2: "get_table_info ascii_lower example_catalog ''CUSTOMERS'' = Inr customers_node"
    using spec [where table_name = "''CUSTOMERS''" and table_name' = "''customers''",
        THEN conjunct2, THEN conjunct2, THEN conjunct2, THEN conjunct2, THEN conjunct1] 1
    by (simp add: low)
  have 3: "get_table_info ascii_lower example_catalog ''Customers'' = Inr customers_node"
    using spec [where table_name = "''Customers''" and table_name' = "''customers''",
        THEN conjunct2, THEN conjunct2, THEN conjunct2, THEN conjunct2, THEN conjunct1] 1
    by (simp add: low)
  have 4: "get_table_info ascii_lower example_catalog ''products'' = Inr JNull"
    by (rule spec [THEN conjunct2, THEN conjunct2, THEN conjunct2, THEN conjunct1, THEN mp])
       (simp add: n example_nodes_def customers_node_def named_node_def node_name_def low)
  have e: "\<not> truthy (JDict [])" by simp
  have 5: "get_table_info ascii_lower (JDict []) ''customers'' = Inr JNull"
    by (rule get_table_info_spec [THEN conjunct1, THEN mp]) (rule e)
  have 6: "node_name customers_node = ''Customers''"
    by (simp add: customers_node_def node_name_def)
  have c: "\<exists>node \<in> set (map snd example_nodes). node_name node = ''Customers''"
    by (simp add: example_nodes_def customers_node_def node_name_def)
  have 7: "\<exists>node \<in> set (map snd example_nodes).
       ascii_lower (node_name node) = ''customers'' \<and>
       get_table_info ascii_lower example_catalog ''customers'' = Inr node \<and>
       get_table_info ascii_lower example_catalog ''CUSTOMERS'' = Inr node \<and>
       get_table_info ascii_lower example_catalog ''Customers'' = Inr node"
    by (rule spec [THEN conjunct2, THEN conjunct2, THEN conjunct2, THEN conjunct2,
          THEN conjunct2, THEN mp])
       (intro conjI low(1) low(2) low(3) n m c)
  show ?thesis by (intro conjI) (rule 1 2 3 4 5 6 7)+
qed

section \<open>Failing to load the catalog: claims C4 and C9\<close>

text \<open>
  C4. When the catalog path does not exist, when the file is not valid JSON, and when
  reading it fails in any other way, \<open>load_catalog\<close> prints the message of that kind
  of failure and returns \<^verbatim>\<open>None\<close>, and \<open>main\<close> then ends the process with exit
  code 1: the message is all the output there is, so nothing is tried again.
\<close>

theorem load_failure_exits:
  "(read_json e (arg_catalog a) = FileNotFoundError \<longrightarrow>
      load_catalog (read_json e) (arg_catalog a) =
        ([[Txt (''Error: catalog.json file not found at '' @ arg_catalog a)]], JNull) \<and>
      main e a =
        ([[Txt (''Error: catalog.json file not found at '' @ arg_catalog a)]], Exit 1)) \<and>
   (read_json e (arg_catalog a) = JSONDecodeError \<longrightarrow>
      load_catalog (read_json e) (arg_catalog a) =
        ([[Txt (''Error: Invalid JSON in catalog.json at '' @ arg_catalog a)]], JNull) \<and>
      main e a =
        ([[Txt (''Error: Invalid JSON in catalog.json at '' @ arg_catalog a)]], Exit 1)) \<and>
   (read_json e (arg_catalog a) = OtherException msg \<longrightarrow>
      load_catalog (read_json e) (arg_catalog a) =
        ([[Txt (''Error loading catalog.json: '' @ msg)]], JNull) \<and>
      main e a = ([[Txt (''Error loading catalog.json: '' @ msg)]], Exit 1))"
  by (simp add: main_def load_catalog_def)

text \<open>The three kinds of failure, on the example file system.\<close>

theorem load_failure_exits_witness:
  "example_files ''missing.json'' = FileNotFoundError \<and>
   main example_env (example_args ''missing.json'' ''debug'' None) =
     ([[Txt ''Error: catalog.json file not found at missing.json'']], Exit 1) \<and>
   example_files ''broken.json'' = JSONDecodeError \<and>
   main example_env (example_args ''broken.json'' ''debug'' None) =
     ([[Txt ''Error: Invalid JSON in catalog.json at broken.json'']], Exit 1) \<and>
   example_files ''target'' = OtherException ''[Errno 21] Is a directory: target'' \<and>
   main example_env (example_args ''target'' ''debug'' None) =
     ([[Txt ''Error loading catalog.json: [Errno 21] Is a directory: target'']], Exit 1)"
proof -
  have 1: "read_json example_env (arg_catalog (example_args ''missing.json'' ''debug'' None))
      = FileNotFoundError"
    by (simp add: example_env_def example_args_def example_files_def)
  have 2: "read_json example_env (arg_catalog (example_args ''broken.json'' ''debug'' None))
      = JSONDecodeError"
    by (simp add: example_env_def example_args_def example_files_def)
  have 3: "read_json example_env (arg_catalog (example_args ''target'' ''debug'' None))
      = OtherException ''[Errno 21] Is a directory: target''"
    by (simp add: example_env_def example_args_def example_files_def)
  from load_failure_exits [of example_env "example_args ''missing.json'' ''debug'' None"] 1
  have "main example_env (example_args ''missing.json'' ''debug'' None) =
     ([[Txt ''Error: catalog.json file not found at missing.json'']], Exit 1)"
    by (simp add: example_args_def)
  moreover
  from load_failure_exits [of example_env "example_args ''broken.json'' ''debug'' None"] 2
  have "main example_env (example_args ''broken.json'' ''debug'' None) =
     ([[Txt ''Error: Invalid JSON in catalog.json at broken.json'']], Exit 1)"
    by (simp add: example_args_def)
  moreover
  from load_failure_exits [of example_env "example_args ''target'' ''debug'' None"
      "''[Errno 21] Is a directory: target''"] 3
  have "main example_env (example_args ''target'' ''debug'' None) =
     ([[Txt ''Error loading catalog.json: [Errno 21] Is a directory: target'']], Exit 1)"
    by (simp add: example_args_def)
  ultimately show ?thesis by (simp add: example_files_def)
qed

text \<open>
  C9. When the file holds valid JSON whose value is false for Python (the empty object,
  the empty array, \<^verbatim>\<open>null\<close>, \<^verbatim>\<open>0\<close>, \<^verbatim>\<open>false\<close>), \<open>main\<close> ends the process
  with exit code 1 as it does after a failure to load, because it tests the loaded
  document for truth: a load that succeeded does not mean that the run goes on.
\<close>

theorem falsy_catalog_exits:
  "(read_json e (arg_catalog a) = Loaded catalog_data \<and> \<not> truthy catalog_data \<longrightarrow>
      main e a = ([], Exit 1)) \<and>
   \<not> truthy (JDict []) \<and> \<not> truthy (JList []) \<and> \<not> truthy JNull \<and>
   \<not> truthy (JInt 0) \<and> \<not> truthy (JBool False)"
  by (simp add: main_def load_catalog_def)

text \<open>
  The file \<^verbatim>\<open>empty.json\<close> holds \<^verbatim>\<open>{}\<close>: the run ends as the run on a missing file
  does.
\<close>

theorem falsy_catalog_exits_witness:
  "example_files ''empty.json'' = Loaded (JDict []) \<and>
   main example_env (example_args ''empty.json'' ''debug'' None) = ([], Exit 1) \<and>
   snd (main example_env (example_args ''empty.json'' ''debug'' None)) =
     snd (main example_env (example_args ''missing.json'' ''debug'' None))"
proof -
  have 1: "read_json example_env (arg_catalog (example_args ''empty.json'' ''debug'' None))
      = Loaded (JDict []) \<and> \<not> truthy (JDict [])"
    by (simp add: example_env_def example_args_def example_files_def)
  from falsy_catalog_exits [of example_env "example_args ''empty.json'' ''debug'' None" "JDict []"] 1
  have 2: "main example_env (example_args ''empty.json'' ''debug'' None) = ([], Exit 1)"
    by blast
  have "snd (main example_env (example_args ''missing.json'' ''debug'' None)) = Exit 1"
    by (simp add: main_def load_catalog_def example_env_def example_args_def example_files_def)
  with 2 show ?thesis by (simp add: example_files_def)
qed


lemma example_catalog_truthy: "truthy example_catalog"
  by (simp add: example_catalog_def)

lemma example_catalog_names:
  "get_table_names example_catalog =
     Inr [JStr ''Customers'', JStr ''customers'', JStr ''orders'']"
  by (simp add: get_table_names_def example_catalog_def example_nodes_def customers_node_def
        table_kinds_def)

lemma example_env_reads:
  "read_json example_env (arg_catalog (example_args ''catalog.json'' llm_choice api_key))
     = Loaded example_catalog"
  by (simp add: example_env_def example_args_def example_files_def)

section \<open>The question router: claims C5 and C6\<close>

text \<open>
  C5. Once the catalog is loaded and its table names are listed, a run with the backend
  \<^verbatim>\<open>openai\<close> and no API key (none given, or the empty string) prints the error
  about the missing key and ends with exit code 1; that line is its whole output, so no
  table has been reported. With a key that is not empty the run gets past the check: it
  prints the question, the table names and the canned response, and it does not end
  by \<^verbatim>\<open>sys.exit(1)\<close>.
\<close>

theorem openai_credential_check:
  "(read_json e (arg_catalog a) = Loaded catalog_data \<and> truthy catalog_data \<and>
    get_table_names catalog_data = Inr table_names \<and> arg_llm a = ''openai'' \<and>
    \<not> key_given (arg_api_key a)
    \<longrightarrow> main e a = ([[Txt ''Error: --api-key is required when using OpenAI.'']], Exit 1)) \<and>
   (read_json e (arg_catalog a) = Loaded catalog_data \<and> truthy catalog_data \<and>
    get_table_names catalog_data = Inr table_names \<and> arg_llm a = ''openai'' \<and>
    key_given (arg_api_key a)
    \<longrightarrow> (\<exists>rest. fst (main e a) =
            [[Txt ''Calling OpenAI with question:'', Txt '' '',
              Txt (join '' '' (arg_question a))],
             [Txt ''Tables in catalog:'', Txt '' '', Str (JList table_names)],
             [Txt ''I think the relevant tables are customers, orders, and products.'']]
            @ rest) \<and>
        snd (main e a) \<noteq> Exit 1) \<and>
   \<not> key_given None \<and> (\<forall>k. key_given (Some k) = (k \<noteq> []))"
proof (intro conjI impI allI)
  assume h: "read_json e (arg_catalog a) = Loaded catalog_data \<and> truthy catalog_data \<and>
    get_table_names catalog_data = Inr table_names \<and> arg_llm a = ''openai'' \<and>
    \<not> key_given (arg_api_key a)"
  then show "main e a = ([[Txt ''Error: --api-key is required when using OpenAI.'']], Exit 1)"
    by (simp add: main_def load_catalog_def find_related_tables_def)
next
  assume h: "read_json e (arg_catalog a) = Loaded catalog_data \<and> truthy catalog_data \<and>
    get_table_names catalog_data = Inr table_names \<and> arg_llm a = ''openai'' \<and>
    key_given (arg_api_key a)"
  obtain out4 err where r: "report_tables e catalog_data (arg_data_path a)
      [''customers'', ''orders'', ''products''] = (out4, err)"
    by (cases "report_tables e catalog_data (arg_data_path a)
      [''customers'', ''orders'', ''products'']")
  from h r show "\<exists>rest. fst (main e a) =
            [[Txt ''Calling OpenAI with question:'', Txt '' '',
              Txt (join '' '' (arg_question a))],
             [Txt ''Tables in catalog:'', Txt '' '', Str (JList table_names)],
             [Txt ''I think the relevant tables are customers, orders, and products.'']]
            @ rest"
    by (cases err) (simp_all add: main_def load_catalog_def find_related_tables_def)
  from h r show "snd (main e a) \<noteq> Exit 1"
    by (cases err) (simp_all add: main_def load_catalog_def find_related_tables_def)
next
  show "\<not> key_given None" by (simp add: key_given_def)
next
  fix k show "key_given (Some k) = (k \<noteq> [])" by (simp add: key_given_def)
qed

text \<open>Runs on the example catalog without a key, with an empty key and with a key.\<close>

theorem openai_credential_check_witness:
  "read_json example_env (arg_catalog (example_args ''catalog.json'' ''openai'' None))
     = Loaded example_catalog \<and>
   truthy example_catalog \<and>
   main example_env (example_args ''catalog.json'' ''openai'' None) =
     ([[Txt ''Error: --api-key is required when using OpenAI.'']], Exit 1) \<and>
   main example_env (example_args ''catalog.json'' ''openai'' (Some [])) =
     ([[Txt ''Error: --api-key is required when using OpenAI.'']], Exit 1) \<and>
   take 3 (fst (main example_env (example_args ''catalog.json'' ''openai'' (Some ''sk-1'')))) =
     [[Txt ''Calling OpenAI with question:'', Txt '' '', Txt ''who ordered most''],
      [Txt ''Tables in catalog:'', Txt '' '',
       Str (JList [JStr ''Customers'', JStr ''customers'', JStr ''orders''])],
      [Txt ''I think the relevant tables are customers, orders, and products.'']] \<and>
   snd (main example_env (example_args ''catalog.json'' ''openai'' (Some ''sk-1''))) \<noteq> Exit 1"
proof -
  have l: "\<And>key. arg_llm (example_args ''catalog.json'' ''openai'' key) = ''openai''"
    and k: "\<And>key. arg_api_key (example_args ''catalog.json'' ''openai'' key) = key"
    and q: "\<And>key. join '' '' (arg_question (example_args ''catalog.json'' ''openai'' key))
      = ''who ordered most''"
    by (simp_all add: example_args_def)
  note c = openai_credential_check [of example_env _ example_catalog
      "[JStr ''Customers'', JStr ''customers'', JStr ''orders'']"]
  have 1: "main example_env (example_args ''catalog.json'' ''openai'' None) =
     ([[Txt ''Error: --api-key is required when using OpenAI.'']], Exit 1)"
    by (rule c [THEN conjunct1, THEN mp])
       (simp add: example_env_reads example_catalog_truthy example_catalog_names l k
          key_given_def)
  have 2: "main example_env (example_args ''catalog.json'' ''openai'' (Some [])) =
     ([[Txt ''Error: --api-key is required when using OpenAI.'']], Exit 1)"
    by (rule c [THEN conjunct1, THEN mp])
       (simp add: example_env_reads example_catalog_truthy example_catalog_names l k
          key_given_def)
  have 3: "(\<exists>rest. fst (main example_env (example_args ''catalog.json'' ''openai'' (Some ''sk-1''))) =
            [[Txt ''Calling OpenAI with question:'', Txt '' '',
              Txt (join '' '' (arg_question (example_args ''catalog.json'' ''openai'' (Some ''sk-1''))))],
             [Txt ''Tables in catalog:'', Txt '' '',
              Str (JList [JStr ''Customers'', JStr ''customers'', JStr ''orders''])],
             [Txt ''I think the relevant tables are customers, orders, and products.'']]
            @ rest) \<and>
        snd (main example_env (example_args ''catalog.json'' ''openai'' (Some ''sk-1''))) \<noteq> Exit 1"
    by (rule c [THEN conjunct2, THEN conjunct1, THEN mp])
       (simp add: example_env_reads example_catalog_truthy example_catalog_names l k
          key_given_def)
  from 3 obtain rest where
    r: "fst (main example_env (example_args ''catalog.json'' ''openai'' (Some ''sk-1''))) =
            [[Txt ''Calling OpenAI with question:'', Txt '' '',
              Txt (join '' '' (arg_question (example_args ''catalog.json'' ''openai'' (Some ''sk-1''))))],
             [Txt ''Tables in catalog:'', Txt '' '',
              Str (JList [JStr ''Customers'', JStr ''customers'', JStr ''orders''])],
             [Txt ''I think the relevant tables are customers, orders, and products.'']]
            @ rest"
    by (elim conjE exE)
  have 4: "take 3 (fst (main example_env (example_args ''catalog.json'' ''openai'' (Some ''sk-1'')))) =
     [[Txt ''Calling OpenAI with question:'', Txt '' '', Txt ''who ordered most''],
      [Txt ''Tables in catalog:'', Txt '' '',
       Str (JList [JStr ''Customers'', JStr ''customers'', JStr ''orders''])],
      [Txt ''I think the relevant tables are customers, orders, and products.'']]"
    by (simp only: r q) simp
  show ?thesis
    by (intro conjI) (rule example_env_reads example_catalog_truthy 1 2 4 conjunct2 [OF 3])+
qed

text \<open>
  C6. For each backend that gets past its checks (\<^verbatim>\<open>debug\<close> and \<^verbatim>\<open>ollama\<close> with or
  without a key, \<^verbatim>\<open>openai\<close> with a key) the router returns a response fixed by the
  backend alone, whatever the question and the table names, and the related tables
  customers, orders, products. A run with the backend \<^verbatim>\<open>debug\<close> on a loaded catalog
  prints the debug notice and response, with any key or none, and does not end by
  \<^verbatim>\<open>sys.exit(1)\<close>.
\<close>

theorem find_related_tables_stub:
  "snd (find_related_tables question table_names ''debug'' api_key) =
     Inr (''Debug response:  The relevant tables are: customers, orders, and products.'',
          [''customers'', ''orders'', ''products'']) \<and>
   snd (find_related_tables question table_names ''ollama'' api_key) =
     Inr (''Ollama says the relevant tables are:  customers, orders, and products.'',
          [''customers'', ''orders'', ''products'']) \<and>
   (key_given api_key \<longrightarrow>
      snd (find_related_tables question table_names ''openai'' api_key) =
        Inr (''I think the relevant tables are customers, orders, and products.'',
             [''customers'', ''orders'', ''products''])) \<and>
   (backend_passes llm_choice api_key \<longrightarrow>
      (\<exists>response. \<forall>question table_names.
          snd (find_related_tables question table_names llm_choice api_key) =
            Inr (response, [''customers'', ''orders'', ''products'']))) \<and>
   (read_json e (arg_catalog a) = Loaded catalog_data \<and> truthy catalog_data \<and>
    get_table_names catalog_data = Inr names \<and> arg_llm a = ''debug''
    \<longrightarrow> (\<exists>rest. fst (main e a) =
           [[Txt ''Debug mode:  No LLM call.''],
            [Txt ''Debug response:  The relevant tables are: customers, orders, and products.'']]
           @ rest) \<and>
        snd (main e a) \<noteq> Exit 1)"
proof (intro conjI impI)
  assume "backend_passes llm_choice api_key"
  then show "\<exists>response. \<forall>question table_names.
          snd (find_related_tables question table_names llm_choice api_key) =
            Inr (response, [''customers'', ''orders'', ''products''])"
    unfolding backend_passes_def
    by (elim disjE conjE) (simp_all add: find_related_tables_def)
next
  assume h: "read_json e (arg_catalog a) = Loaded catalog_data \<and> truthy catalog_data \<and>
    get_table_names catalog_data = Inr names \<and> arg_llm a = ''debug''"
  obtain out4 err where r: "report_tables e catalog_data (arg_data_path a)
      [''customers'', ''orders'', ''products''] = (out4, err)"
    by (cases "report_tables e catalog_data (arg_data_path a)
      [''customers'', ''orders'', ''products'']")
  from h r show "\<exists>rest. fst (main e a) =
           [[Txt ''Debug mode:  No LLM call.''],
            [Txt ''Debug response:  The relevant tables are: customers, orders, and products.'']]
           @ rest"
    by (cases err) (simp_all add: main_def load_catalog_def find_related_tables_def)
  from h r show "snd (main e a) \<noteq> Exit 1"
    by (cases err) (simp_all add: main_def load_catalog_def find_related_tables_def)
qed (simp_all add: find_related_tables_def)

text \<open>The router with a key for \<^verbatim>\<open>openai\<close>, and a \<^verbatim>\<open>debug\<close> run without a key.\<close>

theorem find_related_tables_stub_witness:
  "key_given (Some ''sk-1'') \<and>
   find_related_tables ''who ordered most'' [JStr ''orders''] ''openai'' (Some ''sk-1'') =
     ([[Txt ''Calling OpenAI with question:'', Txt '' '', Txt ''who ordered most''],
       [Txt ''Tables in catalog:'', Txt '' '', Str (JList [JStr ''orders''])]],
      Inr (''I think the relevant tables are customers, orders, and products.'',
           [''customers'', ''orders'', ''products''])) \<and>
   backend_passes ''debug'' None \<and>
   (\<exists>response. \<forall>question table_names.
       snd (find_related_tables question table_names ''debug'' None) =
         Inr (response, [''customers'', ''orders'', ''products''])) \<and>
   take 2 (fst (main example_env (example_args ''catalog.json'' ''debug'' None))) =
     [[Txt ''Debug mode:  No LLM call.''],
      [Txt ''Debug response:  The relevant tables are: customers, orders, and products.'']]"
proof -
  have k: "key_given (Some ''sk-1'')" by (simp add: key_given_def)
  note c = find_related_tables_stub [where question = "''who ordered most''"
      and table_names = "[JStr ''orders'']" and api_key = "Some ''sk-1''"
      and e = example_env and a = "example_args ''catalog.json'' ''debug'' None"
      and catalog_data = example_catalog
      and names = "[JStr ''Customers'', JStr ''customers'', JStr ''orders'']"]
  have s: "snd (find_related_tables ''who ordered most'' [JStr ''orders''] ''openai''
                 (Some ''sk-1'')) =
        Inr (''I think the relevant tables are customers, orders, and products.'',
             [''customers'', ''orders'', ''products''])"
    by (rule c [THEN conjunct2, THEN conjunct2, THEN conjunct1, THEN mp]) (rule k)
  have f: "fst (find_related_tables ''who ordered most'' [JStr ''orders''] ''openai''
                 (Some ''sk-1'')) =
     [[Txt ''Calling OpenAI with question:'', Txt '' '', Txt ''who ordered most''],
      [Txt ''Tables in catalog:'', Txt '' '', Str (JList [JStr ''orders''])]]"
    by (simp add: find_related_tables_def k)
  have 1: "find_related_tables ''who ordered most'' [JStr ''orders''] ''openai'' (Some ''sk-1'') =
     ([[Txt ''Calling OpenAI with question:'', Txt '' '', Txt ''who ordered most''],
       [Txt ''Tables in catalog:'', Txt '' '', Str (JList [JStr ''orders''])]],
      Inr (''I think the relevant tables are customers, orders, and products.'',
           [''customers'', ''orders'', ''products'']))"
    by (rule prod_eqI) (simp_all only: f s fst_conv snd_conv)
  have l: "arg_llm (example_args ''catalog.json'' ''debug'' None) = ''debug''"
    by (simp add: example_args_def)
  have "(\<exists>rest. fst (main example_env (example_args ''catalog.json'' ''debug'' None)) =
           [[Txt ''Debug mode:  No LLM call.''],
            [Txt ''Debug response:  The relevant tables are: customers, orders, and products.'']]
           @ rest) \<and>
        snd (main example_env (example_args ''catalog.json'' ''debug'' None)) \<noteq> Exit 1"
    by (rule c [THEN conjunct2, THEN conjunct2, THEN conjunct2, THEN conjunct2, THEN mp])
       (simp add: example_env_reads example_catalog_truthy example_catalog_names l)
  then obtain rest where
    r: "fst (main example_env (example_args ''catalog.json'' ''debug'' None)) =
           [[Txt ''Debug mode:  No LLM call.''],
            [Txt ''Debug response:  The relevant tables are: customers, orders, and products.'']]
           @ rest"
    by (elim conjE exE)
  have 2: "take 2 (fst (main example_env (example_args ''catalog.json'' ''debug'' None))) =
     [[Txt ''Debug mode:  No LLM call.''],
      [Txt ''Debug response:  The relevant tables are: customers, orders, and products.'']]"
    by (simp only: r) simp
  have 3: "backend_passes ''debug'' None" by (simp add: backend_passes_def)
  have 4: "\<exists>response. \<forall>question table_names.
       snd (find_related_tables question table_names ''debug'' None) =
         Inr (response, [''customers'', ''orders'', ''products''])"
    by (rule find_related_tables_stub [THEN conjunct2, THEN conjunct2, THEN conjunct2,
          THEN conjunct1, THEN mp]) (rule 3)
  show ?thesis by (intro conjI) (rule k 1 2 3 4)+
qed

section \<open>Sampling without the engine: claim C7\<close>



section \<open>The session of a sampling call: claim C8\<close>

text \<open>
  C8 says that every sampling call releases its session on every path, also when the
  query fails. With an engine that connects and then fails the query (no file matches
  \<^verbatim>\<open>customers/*.parquet\<close>), both sampling functions return the error text having
  opened a connection and sent the query, and \<^verbatim>\<open>conn.close()\<close> is not called: it
  stands between the query and the \<^verbatim>\<open>return\<close> inside the \<^verbatim>\<open>try\<close>, and there is no
  \<^verbatim>\<open>finally\<close>. When the query succeeds the session is closed.
\<close>

theorem session_not_closed_on_failure:
  "get_sample_data_duckdb True no_files_engine ''customers'' ''/data'' =
     (''Error retrieving sample data with DuckDB: IO Error: No files found'',
      [Connect,
       Execute (''SELECT * FROM read_parquet('' @ [CHR 0x27] @ ''customers/*.parquet''
                @ [CHR 0x27] @ '') LIMIT 5'')]) \<and>
   get_table_schema_duckdb True no_files_engine ''customers'' ''/data'' =
     (''Error retrieving table schema with DuckDB: IO Error: No files found'',
      [Connect,
       Execute (''DESCRIBE SELECT * FROM read_parquet('' @ [CHR 0x27]
                @ ''customers/*.parquet'' @ [CHR 0x27] @ '') LIMIT 5'')]) \<and>
   Close \<notin> set (snd (get_sample_data_duckdb True no_files_engine ''customers'' ''/data'')) \<and>
   Close \<notin> set (snd (get_table_schema_duckdb True no_files_engine ''customers'' ''/data'')) \<and>
   snd (get_sample_data_duckdb True answering_engine ''customers'' ''/data'') =
     [Connect,
      Execute (''SELECT * FROM read_parquet('' @ [CHR 0x27] @ ''customers/*.parquet''
               @ [CHR 0x27] @ '') LIMIT 5''),
      Close] \<and>
   snd (get_table_schema_duckdb True answering_engine ''customers'' ''/data'') =
     [Connect,
      Execute (''DESCRIBE SELECT * FROM read_parquet('' @ [CHR 0x27]
               @ ''customers/*.parquet'' @ [CHR 0x27] @ '') LIMIT 5''),
      Close]"
  by (simp add: get_sample_data_duckdb_def get_table_schema_duckdb_def
        generate_duckdb_query_def no_files_engine_def answering_engine_def)

section \<open>When the catalog index raises: claim C10\<close>

lemma is_dict_no_key: "is_dict obj \<Longrightarrow> \<not> has_key obj k \<Longrightarrow> subscript obj k = Inl KeyError"
  by (cases obj) (auto simp: has_key_def split: option.splits)

lemma get_table_names_loop_dicts:
  "\<forall>node \<in> set vs. is_dict node \<Longrightarrow>
   get_table_names_loop vs acc = Inl KeyError \<or>
   ((\<exists>r. get_table_names_loop vs acc = Inr r) \<and>
    (\<forall>node \<in> set vs. has_key node ''resource_type'' \<and>
       (field node ''resource_type'' \<in> set table_kinds \<longrightarrow> has_key node ''name'')))"
proof (induction vs arbitrary: acc)
  case Nil
  then show ?case by simp
next
  case (Cons node vs)
  then have d: "is_dict node" and ds: "\<forall>n \<in> set vs. is_dict n" by simp_all
  show ?case
  proof (cases "has_key node ''resource_type''")
    case False
    with is_dict_no_key [OF d] show ?thesis by simp
  next
    case rt: True
    note s = has_key_subscript [OF rt]
    show ?thesis
    proof (cases "field node ''resource_type'' \<in> set table_kinds")
      case False
      with Cons.IH [OF ds, of acc] s rt show ?thesis by auto
    next
      case k: True
      show ?thesis
      proof (cases "has_key node ''name''")
        case False
        with is_dict_no_key [OF d] s k show ?thesis by simp
      next
        case True
        with Cons.IH [OF ds, of "acc @ [field node ''name'']"] s rt k
          has_key_subscript [OF True]
        show ?thesis by auto
      qed
    qed
  qed
qed

lemma get_table_info_loop_missing_name:
  "\<forall>n \<in> set pre. named_node n \<and> str_lower (node_name n) \<noteq> str_lower q \<Longrightarrow>
   is_dict node \<Longrightarrow> \<not> has_key node ''name'' \<Longrightarrow>
   get_table_info_loop str_lower (pre @ node # post) q = Inl KeyError"
  by (induction pre) (simp_all add: is_dict_no_key named_node_subscript)

text \<open>
  C10, as amended. \<open>get_table_info\<close> and \<open>get_table_names\<close> return without raising
  whenever the catalog has a \<^verbatim>\<open>nodes\<close> mapping whose every entry has a string
  \<^verbatim>\<open>name\<close> and a \<^verbatim>\<open>resource_type\<close>. On a non-empty mapping without the key
  \<^verbatim>\<open>nodes\<close> both raise \<^verbatim>\<open>KeyError\<close>. When all nodes are mappings,
  \<open>get_table_names\<close> raises \<^verbatim>\<open>KeyError\<close> if some node has no \<^verbatim>\<open>resource_type\<close>, or
  has a queryable type and no \<^verbatim>\<open>name\<close>; \<open>get_table_info\<close> raises \<^verbatim>\<open>KeyError\<close> if
  it reaches a node without \<^verbatim>\<open>name\<close>, all nodes before it having string names that
  differ from the query once \<^verbatim>\<open>str.lower\<close> is applied to both. This holds whatever
  function \<^verbatim>\<open>str.lower\<close> is.
\<close>

theorem index_key_errors:
  "(subscript catalog_data ''nodes'' = Inr (JDict ns) \<and>
    (\<forall>node \<in> set (map snd ns). named_node node \<and> has_key node ''resource_type'')
    \<longrightarrow> (\<exists>r. get_table_info str_lower catalog_data table_name = Inr r) \<and>
        (\<exists>names. get_table_names catalog_data = Inr names)) \<and>
   (d \<noteq> [] \<and> map_of d ''nodes'' = None
    \<longrightarrow> get_table_info str_lower (JDict d) table_name = Inl KeyError \<and>
        get_table_names (JDict d) = Inl KeyError) \<and>
   (subscript catalog_data ''nodes'' = Inr (JDict ns) \<and>
    (\<forall>node \<in> set (map snd ns). is_dict node) \<and>
    (\<exists>node \<in> set (map snd ns).
        \<not> has_key node ''resource_type'' \<or>
        (field node ''resource_type'' \<in> set table_kinds \<and> \<not> has_key node ''name''))
    \<longrightarrow> get_table_names catalog_data = Inl KeyError) \<and>
   (subscript catalog_data ''nodes'' = Inr (JDict (pre @ (k, node) # post)) \<and>
    (\<forall>n \<in> set (map snd pre).
        named_node n \<and> str_lower (node_name n) \<noteq> str_lower table_name) \<and>
    is_dict node \<and> \<not> has_key node ''name''
    \<longrightarrow> get_table_info str_lower catalog_data table_name = Inl KeyError)"
proof (intro conjI impI)
  assume a: "subscript catalog_data ''nodes'' = Inr (JDict ns) \<and>
    (\<forall>node \<in> set (map snd ns). named_node node \<and> has_key node ''resource_type'')"
  then have n: "subscript catalog_data ''nodes'' = Inr (JDict ns)" by simp
  from a have m: "\<forall>node \<in> set (map snd ns). named_node node" by simp
  from a have t: "\<forall>node \<in> set (map snd ns). has_key node ''resource_type'' \<and>
       (field node ''resource_type'' \<in> set table_kinds \<longrightarrow> has_key node ''name'')"
    by (simp add: named_node_has_key)
  from get_table_info_loop_find [OF m, of str_lower table_name]
  show "\<exists>r. get_table_info str_lower catalog_data table_name = Inr r"
    by (simp add: get_table_info_nodes [OF n])
  from get_table_names_loop_filter [OF t, of "[]"]
  show "\<exists>names. get_table_names catalog_data = Inr names"
    by (simp add: get_table_names_nodes [OF n])
next
  assume a: "d \<noteq> [] \<and> map_of d ''nodes'' = None"
  then show "get_table_info str_lower (JDict d) table_name = Inl KeyError"
    by (simp add: get_table_info_def)
  from a show "get_table_names (JDict d) = Inl KeyError"
    by (simp add: get_table_names_def)
next
  assume a: "subscript catalog_data ''nodes'' = Inr (JDict ns) \<and>
    (\<forall>node \<in> set (map snd ns). is_dict node) \<and>
    (\<exists>node \<in> set (map snd ns).
        \<not> has_key node ''resource_type'' \<or>
        (field node ''resource_type'' \<in> set table_kinds \<and> \<not> has_key node ''name''))"
  then have n: "subscript catalog_data ''nodes'' = Inr (JDict ns)"
    and ds: "\<forall>node \<in> set (map snd ns). is_dict node" by simp_all
  from a get_table_names_loop_dicts [OF ds, of "[]"]
  have "get_table_names_loop (map snd ns) [] = Inl KeyError" by blast
  then show "get_table_names catalog_data = Inl KeyError"
    by (simp add: get_table_names_nodes [OF n])
next
  assume a: "subscript catalog_data ''nodes'' = Inr (JDict (pre @ (k, node) # post)) \<and>
    (\<forall>n \<in> set (map snd pre).
        named_node n \<and> str_lower (node_name n) \<noteq> str_lower table_name) \<and>
    is_dict node \<and> \<not> has_key node ''name''"
  then have n: "subscript catalog_data ''nodes'' = Inr (JDict (pre @ (k, node) # post))"
    and p: "\<forall>n \<in> set (map snd pre).
        named_node n \<and> str_lower (node_name n) \<noteq> str_lower table_name"
    and d: "is_dict node" and m: "\<not> has_key node ''name''" by simp_all
  from get_table_info_loop_missing_name [OF p d m, of "map snd post"]
  show "get_table_info str_lower catalog_data table_name = Inl KeyError"
    by (simp add: get_table_info_nodes [OF n])
qed

text \<open>
  The example catalog, a document without \<^verbatim>\<open>nodes\<close>, a node without
  \<^verbatim>\<open>resource_type\<close>, and a lookup that reaches the node without \<^verbatim>\<open>name\<close>.
\<close>

theorem index_key_errors_witness:
  "(\<exists>r. get_table_info ascii_lower example_catalog ''orders'' = Inr r) \<and>
   (\<exists>names. get_table_names example_catalog = Inr names) \<and>
   get_table_info ascii_lower nodeless_catalog ''customers'' = Inl KeyError \<and>
   get_table_names nodeless_catalog = Inl KeyError \<and>
   get_table_names untyped_catalog = Inl KeyError \<and>
   get_table_info ascii_lower partial_catalog ''orders'' = Inl KeyError"
proof -
  have low: "ascii_lower ''customers'' = ''customers''" "ascii_lower ''orders'' = ''orders''"
    by code_simp+
  have 1: "(\<exists>r. get_table_info ascii_lower example_catalog ''orders'' = Inr r) \<and>
        (\<exists>names. get_table_names example_catalog = Inr names)"
    by (rule index_key_errors [where ns = example_nodes, THEN conjunct1, THEN mp])
       (simp add: example_catalog_def example_nodes_def customers_node_def named_node_def
          has_key_def)
  have 2: "get_table_info ascii_lower (JDict [(''metadata'', JDict [])]) ''customers''
          = Inl KeyError \<and>
        get_table_names (JDict [(''metadata'', JDict [])]) = Inl KeyError"
    by (rule index_key_errors [THEN conjunct2, THEN conjunct1, THEN mp]) simp
  have 3: "get_table_names untyped_catalog = Inl KeyError"
    by (rule index_key_errors [where ns = untyped_nodes,
          THEN conjunct2, THEN conjunct2, THEN conjunct1, THEN mp])
       (simp add: untyped_catalog_def untyped_nodes_def has_key_def)
  have 4: "get_table_info ascii_lower partial_catalog ''orders'' = Inl KeyError"
    by (rule index_key_errors [where pre = "[hd partial_nodes]"
          and k = "''source.shop.raw''"
          and node = "JDict [(''resource_type'', JStr ''source'')]" and post = "[]",
          THEN conjunct2, THEN conjunct2, THEN conjunct2, THEN mp])
       (simp add: partial_catalog_def partial_nodes_def has_key_def named_node_def
          node_name_def low)
  show ?thesis
    unfolding nodeless_catalog_def
    by (intro conjI)
       (rule conjunct1 [OF 1] conjunct2 [OF 1] conjunct1 [OF 2] conjunct2 [OF 2] 3 4)+
qed

text \<open>
  C10 as it was stated does not hold: a node without \<^verbatim>\<open>name\<close> or without
  \<^verbatim>\<open>resource_type\<close> need not make the functions raise. \<open>get_table_info\<close> returns
  at the first match and never reads \<^verbatim>\<open>resource_type\<close>; \<open>get_table_names\<close> reads
  the \<^verbatim>\<open>name\<close> of queryable nodes only. In \<open>partial_catalog\<close> the second node, a
  source, has no \<^verbatim>\<open>name\<close>, and both functions return; in \<open>untyped_catalog\<close> the
  node has no \<^verbatim>\<open>resource_type\<close>, and the lookup returns it. The names and the
  query are the same ASCII text \<^verbatim>\<open>customers\<close>.
\<close>

theorem index_raises_on_missing_key_counterexample:
  "truthy partial_catalog \<and>
   subscript partial_catalog ''nodes'' = Inr (JDict partial_nodes) \<and>
   \<not> has_key (snd (partial_nodes ! 1)) ''name'' \<and>
   get_table_info ascii_lower partial_catalog ''customers''
     = Inr (snd (partial_nodes ! 0)) \<and>
   get_table_names partial_catalog = Inr [JStr ''customers''] \<and>
   truthy untyped_catalog \<and>
   subscript untyped_catalog ''nodes'' = Inr (JDict untyped_nodes) \<and>
   \<not> has_key (snd (untyped_nodes ! 0)) ''resource_type'' \<and>
   get_table_info ascii_lower untyped_catalog ''customers''
     = Inr (snd (untyped_nodes ! 0))"
proof -
  have low: "ascii_lower ''customers'' = ''customers''" by code_simp
  show ?thesis
    by (simp add: partial_catalog_def partial_nodes_def untyped_catalog_def untyped_nodes_def
          has_key_def get_table_info_def get_table_names_def table_kinds_def low)
qed

end
